theory Spec2Isabelle
  imports Complex_Main
begin

section \<open>Values read from the source store\<close>

text \<open>
  A calendar date is a year, a month and a day. The driver of the source store hands
  every cell to the pipeline as a Python object; the constructors below are the classes
  that \<open>inferir_tipo_coluna\<close> tells apart, with \<open>PyDate\<close> for a \<open>datetime.date\<close> that
  is not a \<open>datetime.datetime\<close> and \<open>PyOutro\<close> for an object of any other class
  (bytes, UUID, time, ...). The payloads are never inspected by the type inference.
\<close>

type_synonym data = "nat \<times> nat \<times> nat"

datatype py_valor =
    PyNone
  | PyBool bool
  | PyInt int
  | PyFloat real
  | PyDecimal rat
  | PyDatetime data nat
  | PyDate data
  | PyStr string
  | PyOutro string

section \<open>Type inference (\<open>inferir_tipo_coluna\<close>)\<close>

text \<open>
  The function returns one of six string constants, used as tags; \<open>nome_tipo\<close> gives
  each tag its text, which is what ends up in the \<open>CREATE TABLE\<close> statement.
\<close>

datatype tipo_pg = BOOLEAN | INTEGER | DOUBLE_PRECISION | NUMERIC_18_4 | TIMESTAMP | TEXT

fun nome_tipo :: "tipo_pg \<Rightarrow> string" where
  "nome_tipo BOOLEAN = ''BOOLEAN''"
| "nome_tipo INTEGER = ''INTEGER''"
| "nome_tipo DOUBLE_PRECISION = ''DOUBLE PRECISION''"
| "nome_tipo NUMERIC_18_4 = ''NUMERIC(18,4)''"
| "nome_tipo TIMESTAMP = ''TIMESTAMP''"
| "nome_tipo TEXT = ''TEXT''"

text \<open>
  One pass of the \<open>for valor in amostras\<close> loop: \<open>None\<close> is skipped (\<open>continue\<close>),
  every other value adds one tag to the set. The \<open>isinstance\<close> chain is kept in
  the order of the source: \<open>bool\<close> is a subclass of \<open>int\<close> and is tested first; the
  timestamp test is \<open>isinstance(valor, (datetime, datetime))\<close>, which a plain date
  does not pass, so a plain date falls through to the \<open>else\<close> branch.
\<close>

fun classificar :: "py_valor \<Rightarrow> tipo_pg option" where
  "classificar PyNone = None"
| "classificar (PyBool b) = Some BOOLEAN"
| "classificar (PyInt i) = Some INTEGER"
| "classificar (PyFloat f) = Some DOUBLE_PRECISION"
| "classificar (PyDecimal q) = Some NUMERIC_18_4"
| "classificar (PyDatetime d s) = Some TIMESTAMP"
| "classificar v = Some TEXT"

definition registrar :: "py_valor \<Rightarrow> tipo_pg set \<Rightarrow> tipo_pg set" where
  "registrar valor tipos =
     (case classificar valor of None \<Rightarrow> tipos | Some t \<Rightarrow> insert t tipos)"

definition tipos_encontrados :: "py_valor list \<Rightarrow> tipo_pg set" where
  "tipos_encontrados amostras = fold registrar amostras {}"

text \<open>
  The decision after the loop. \<open>tipos_encontrados.pop()\<close> is only reached on a set of one
  element, where it returns that element.
\<close>

definition inferir_tipo_coluna :: "py_valor list \<Rightarrow> tipo_pg" where
  "inferir_tipo_coluna amostras =
     (let tipos = tipos_encontrados amostras in
      if tipos = {} then TEXT
      else if card tipos = 1 then the_elem tipos
      else if tipos \<subseteq> {INTEGER, NUMERIC_18_4} then NUMERIC_18_4
      else TEXT)"

text \<open>
  The set of distinct classifications observed in a sample, stated without the loop:
  the tags of the values that are not \<open>None\<close>.
\<close>

definition tipos_observados :: "py_valor list \<Rightarrow> tipo_pg set" where
  "tipos_observados amostras = {t. \<exists>v \<in> set amostras. classificar v = Some t}"

section \<open>Date dimension (\<open>inicializar_dimensao_tempo\<close>)\<close>




fun data_le :: "data \<Rightarrow> data \<Rightarrow> bool" where
  "data_le (y1, m1, d1) (y2, m2, d2) =
     (y1 < y2 \<or> (y1 = y2 \<and> (m1 < m2 \<or> (m1 = m2 \<and> d1 \<le> d2))))"





text \<open>\<open>TO_CHAR(d, 'YYYYMMDD')::INT\<close>: the digits of year, month and day read as one number.\<close>

fun chave_tempo :: "data \<Rightarrow> int" where
  "chave_tempo (y, m, d) = int y * 10000 + int m * 100 + int d"





section \<open>Staging extraction (\<open>extrair_dados_para_staging\<close>)\<close>

text \<open>
  What \<open>SELECT * FROM tabela_origem\<close> returns: the column names of
  \<open>cursor.description\<close> and the rows of \<open>fetchall()\<close>. The source store is a map from
  qualified table names to such results; a name it does not know makes the query fail.

  A staging table is what the \<open>CREATE TABLE\<close> statement declares (column name and type
  text, in order) and the rows inserted so far. Staging tables carry no constraint and
  the store is taken to accept every row handed to it. The staging schema is a map from
  table names to tables; the connection runs in autocommit mode, so every statement that
  has run stays in effect when a later step fails: the result of a step is the schema
  together with the error raised, if any.
\<close>

type_synonym linha = "py_valor list"

record tabela_fonte =
  colunas :: "string list"
  registros :: "linha list"

record tabela_staging =
  definicao_colunas :: "(string \<times> string) list"
  linhas :: "linha list"

type_synonym banco_fonte = "string \<rightharpoonup> tabela_fonte"
type_synonym esquema_staging = "string \<rightharpoonup> tabela_staging"

datatype erro =
    TabelaFonteInexistente string
  | IndexError
  | KeyError string
  | TypeError
  | NumericFieldOverflow
  | CardinalityViolation

definition MAPA_TABELAS :: "(string \<times> string) list" where
  "MAPA_TABELAS =
     [(''Sales.Customer'', ''stage_clientes''),
      (''Person.Person'', ''stage_pessoas''),
      (''Production.Product'', ''stage_produtos''),
      (''Production.ProductSubcategory'', ''stage_subcategorias''),
      (''Production.ProductCategory'', ''stage_categorias''),
      (''Sales.SalesTerritory'', ''stage_territorios''),
      (''Sales.SalesPerson'', ''stage_vendedores''),
      (''HumanResources.Employee'', ''stage_funcionarios''),
      (''Sales.SpecialOffer'', ''stage_ofertas''),
      (''Sales.SalesOrderHeader'', ''stage_pedidos_header''),
      (''Sales.SalesOrderDetail'', ''stage_pedidos_detalhe'')]"

text \<open>\<open>CREATE TABLE staging.t (placeholder INT)\<close>, for an empty source table.\<close>

definition tabela_placeholder :: tabela_staging where
  "tabela_placeholder = \<lparr>definicao_colunas = [(''placeholder'', ''INT'')], linhas = []\<rparr>"

text \<open>
  \<open>[r[idx] for r in amostra if r[idx] is not None]\<close>: indexing a row that is too short
  raises \<open>IndexError\<close>.
\<close>

fun valores_amostra :: "nat \<Rightarrow> linha list \<Rightarrow> erro + py_valor list" where
  "valores_amostra idx [] = Inr []"
| "valores_amostra idx (r # amostra) =
     (if idx < length r then
        (case valores_amostra idx amostra of
           Inl e \<Rightarrow> Inl e
         | Inr vs \<Rightarrow> Inr (if r ! idx \<noteq> PyNone then r ! idx # vs else vs))
      else Inl IndexError)"

text \<open>
  \<open>for idx, coluna in enumerate(colunas): tipos_coluna[coluna] = inferir_tipo_coluna(...)\<close>;
  \<open>tipos_coluna\<close> is a dictionary keyed by column name.
\<close>

fun inferir_colunas ::
  "nat \<Rightarrow> string list \<Rightarrow> linha list \<Rightarrow> (string \<rightharpoonup> tipo_pg) \<Rightarrow> erro + (string \<rightharpoonup> tipo_pg)" where
  "inferir_colunas idx [] amostra tipos_coluna = Inr tipos_coluna"
| "inferir_colunas idx (coluna # cs) amostra tipos_coluna =
     (case valores_amostra idx amostra of
        Inl e \<Rightarrow> Inl e
      | Inr vs \<Rightarrow>
          inferir_colunas (Suc idx) cs amostra
            (tipos_coluna(coluna \<mapsto> inferir_tipo_coluna vs)))"

text \<open>
  \<open>", ".join([f'"{col}" {tipos_coluna[col]}' for col in colunas])\<close>, kept as the list of
  the column definitions.
\<close>

fun montar_definicao :: "(string \<rightharpoonup> tipo_pg) \<Rightarrow> string list \<Rightarrow> erro + (string \<times> string) list" where
  "montar_definicao tipos_coluna [] = Inr []"
| "montar_definicao tipos_coluna (col # cs) =
     (case tipos_coluna col of
        None \<Rightarrow> Inl (KeyError col)
      | Some t \<Rightarrow>
          (case montar_definicao tipos_coluna cs of
             Inl e \<Rightarrow> Inl e
           | Inr ds \<Rightarrow> Inr ((col, nome_tipo t) # ds)))"

text \<open>
  The batch loop: \<open>for i in range(0, len(registros), tamanho_lote)\<close> with
  \<open>lote = registros[i:i + tamanho_lote]\<close>. The function returns the batches handed to
  \<open>execute_batch\<close>, in order, and \<open>total_inserido\<close>.
\<close>

definition tamanho_lote :: nat where
  "tamanho_lote = 500"

function inserir_em_lotes :: "linha list \<Rightarrow> nat \<Rightarrow> linha list list \<Rightarrow> nat \<Rightarrow> linha list list \<times> nat" where
  "inserir_em_lotes regs i lotes total_inserido =
     (if i < length regs then
        (let lote = take tamanho_lote (drop i regs)
         in inserir_em_lotes regs (i + tamanho_lote) (lotes @ [lote])
              (total_inserido + length lote))
      else (lotes, total_inserido))"
  by pat_completeness auto
termination
  by (relation "measure (\<lambda>(regs, i, lotes, total_inserido). length regs - i)")
     (auto simp: tamanho_lote_def)

declare inserir_em_lotes.simps [simp del]

text \<open>
  The body of the loop over \<open>MAPA_TABELAS\<close> for one mapping: extract, drop the staging
  table, then either create the placeholder and go on (\<open>continue\<close>), or infer the types
  from the first rows, create the table and insert every row.
\<close>

definition processar_tabela ::
  "banco_fonte \<Rightarrow> string \<times> string \<Rightarrow> esquema_staging \<Rightarrow> esquema_staging \<times> erro option" where
  "processar_tabela fonte mapeamento staging =
     (case mapeamento of (tabela_origem, tabela_staging) \<Rightarrow>
      (case fonte tabela_origem of
         None \<Rightarrow> (staging, Some (TabelaFonteInexistente tabela_origem))
       | Some t \<Rightarrow>
           (let staging1 = staging(tabela_staging := None) in
            if registros t = [] then
              (staging1(tabela_staging \<mapsto> tabela_placeholder), None)
            else
              (let amostra = take (min (length (registros t)) 1000) (registros t) in
               case inferir_colunas 0 (colunas t) amostra Map.empty of
                 Inl e \<Rightarrow> (staging1, Some e)
               | Inr tipos_coluna \<Rightarrow>
                   (case montar_definicao tipos_coluna (colunas t) of
                      Inl e \<Rightarrow> (staging1, Some e)
                    | Inr definicao \<Rightarrow>
                        (let (lotes, total_inserido) = inserir_em_lotes (registros t) 0 [] 0
                         in (staging1(tabela_staging \<mapsto>
                               \<lparr>definicao_colunas = definicao, linhas = concat lotes\<rparr>),
                             None)))))))"

fun extrair_tabelas ::
  "banco_fonte \<Rightarrow> (string \<times> string) list \<Rightarrow> esquema_staging \<Rightarrow> esquema_staging \<times> erro option" where
  "extrair_tabelas fonte [] staging = (staging, None)"
| "extrair_tabelas fonte (mapeamento # resto) staging =
     (case processar_tabela fonte mapeamento staging of
        (staging', Some e) \<Rightarrow> (staging', Some e)
      | (staging', None) \<Rightarrow> extrair_tabelas fonte resto staging')"

definition extrair_dados_para_staging :: "banco_fonte \<Rightarrow> esquema_staging \<Rightarrow> esquema_staging \<times> erro option" where
  "extrair_dados_para_staging fonte staging = extrair_tabelas fonte MAPA_TABELAS staging"


section \<open>The destination engine\<close>

subsection \<open>Numbers\<close>

text \<open>
  A \<open>NUMERIC\<close> value is a rational number and \<open>NULL\<close> is \<open>None\<close>. Sums, differences and
  products of \<open>NUMERIC\<close> values are exact. The cast \<open>::NUMERIC(p,s)\<close> rounds to \<open>s\<close>
  decimal places, a half away from zero, and raises \<open>numeric field overflow\<close> when the
  rounded value does not fit \<open>p - s\<close> digits before the decimal point.
\<close>

definition arredondar :: "nat \<Rightarrow> rat \<Rightarrow> rat" where
  "arredondar s x =
     (if 0 \<le> x then of_int \<lfloor>x * 10 ^ s + 1 / 2\<rfloor> / 10 ^ s
      else - (of_int \<lfloor>- x * 10 ^ s + 1 / 2\<rfloor> / 10 ^ s))"

definition numeric_cast :: "nat \<Rightarrow> nat \<Rightarrow> rat \<Rightarrow> erro + rat" where
  "numeric_cast p s x =
     (let r = arredondar s x in
      if \<bar>r\<bar> < 10 ^ (p - s) then Inr r else Inl NumericFieldOverflow)"

definition numeric_cast_null :: "nat \<Rightarrow> nat \<Rightarrow> rat option \<Rightarrow> erro + rat option" where
  "numeric_cast_null p s x =
     (case x of
        None \<Rightarrow> Inr None
      | Some v \<Rightarrow> (case numeric_cast p s v of Inl e \<Rightarrow> Inl e | Inr r \<Rightarrow> Inr (Some r)))"

text \<open>Operators yield \<open>NULL\<close> on a \<open>NULL\<close> operand; \<open>COALESCE(x, 0)\<close> replaces it.\<close>

definition vezes :: "rat option \<Rightarrow> rat option \<Rightarrow> rat option" where
  "vezes a b = (case (a, b) of (Some x, Some y) \<Rightarrow> Some (x * y) | _ \<Rightarrow> None)"

definition menos :: "rat option \<Rightarrow> rat option \<Rightarrow> rat option" where
  "menos a b = (case (a, b) of (Some x, Some y) \<Rightarrow> Some (x - y) | _ \<Rightarrow> None)"

definition coalesce0 :: "rat option \<Rightarrow> rat" where
  "coalesce0 a = (case a of None \<Rightarrow> 0 | Some x \<Rightarrow> x)"

text \<open>
  The engine's \<open>NUMERIC\<close> division keeps a number of decimal places of the engine's own
  choosing. It is a parameter \<open>dividir\<close> of everything below, and nothing is assumed
  about it.
\<close>

definition dividido :: "(rat \<Rightarrow> rat \<Rightarrow> rat) \<Rightarrow> rat option \<Rightarrow> rat option \<Rightarrow> rat option" where
  "dividido dividir a b = (case (a, b) of (Some x, Some y) \<Rightarrow> Some (dividir x y) | _ \<Rightarrow> None)"

subsection \<open>Joins and statements\<close>

text \<open>
  \<open>LEFT JOIN\<close>: every matching row of the dimension, or one \<open>NULL\<close> row when there is
  none. A \<open>NULL\<close> key matches nothing.
\<close>

definition left_join :: "('d \<Rightarrow> int) \<Rightarrow> int option \<Rightarrow> 'd list \<Rightarrow> 'd option list" where
  "left_join nk chave tabela =
     (case filter (\<lambda>d. chave = Some (nk d)) tabela of
        [] \<Rightarrow> [None]
      | achadas \<Rightarrow> map Some achadas)"

text \<open>The same against a table whose key column may hold \<open>NULL\<close>.\<close>

definition left_join_null :: "('d \<Rightarrow> int option) \<Rightarrow> int \<Rightarrow> 'd list \<Rightarrow> 'd option list" where
  "left_join_null coluna chave tabela =
     (case filter (\<lambda>d. coluna d = Some chave) tabela of
        [] \<Rightarrow> [None]
      | achadas \<Rightarrow> map Some achadas)"

text \<open>The statement fails as a whole when the evaluation of one row fails.\<close>

fun todas_ou_erro :: "(erro + 'a) list \<Rightarrow> erro + 'a list" where
  "todas_ou_erro [] = Inr []"
| "todas_ou_erro (Inl e # resto) = Inl e"
| "todas_ou_erro (Inr x # resto) =
     (case todas_ou_erro resto of Inl e \<Rightarrow> Inl e | Inr xs \<Rightarrow> Inr (x # xs))"

section \<open>Region dimension (\<open>carregar_dimensao_regiao\<close>)\<close>

text \<open>
  A row of \<open>staging.stage_territorios\<close>, with the columns the statement reads; a column
  value may be \<open>NULL\<close>.
\<close>

record territorio =
  TerritoryID :: "int option"
  Name :: "string option"
  CountryRegionCode :: "string option"
  Group :: "string option"

text \<open>
  The four texts that the \<open>CASE\<close> expression yields for \<open>continente\<close>:
  Americas, Europa, Asia-Pacifico and Outros (the first and the third carry accents in the source).
\<close>

datatype continente = Americas | Europa | Asia_Pacifico | Outros

text \<open>A row produced by the \<open>SELECT\<close>, and a row of \<open>dw.dim_regiao\<close>.\<close>

record regiao_selecionada =
  nk_regiao :: int
  nome_territorio :: "string option"
  codigo_pais :: "string option"
  nome_pais :: "string option"
  continente :: continente
  grupo_regional :: "string option"

record linha_regiao = regiao_selecionada +
  sk_regiao :: int

text \<open>
  Modelled from the spec: the declaration of \<open>dw.dim_regiao\<close> is not part of the source
  file. The surrogate key is system-generated: the table carries the next value of its
  sequence, and every row proposed for insertion takes one value, also when the row then
  runs into the conflict. The natural key \<open>nk_regiao\<close> is unique, which is what
  \<open>ON CONFLICT (nk_regiao)\<close> relies on.
\<close>

record tabela_regiao =
  linhas_regiao :: "linha_regiao list"
  proximo_sk_regiao :: int

text \<open>\<open>texto LIKE '%padrao%'\<close>, for a pattern without wildcards of its own.\<close>

fun contem :: "string \<Rightarrow> string \<Rightarrow> bool" where
  "contem padrao [] = (padrao = [])"
| "contem padrao (c # resto) =
     (take (length padrao) (c # resto) = padrao \<or> contem padrao resto)"

text \<open>
  The \<open>CASE\<close> over \<open>t."Group"\<close>; on a \<open>NULL\<close> group no \<open>LIKE\<close> is true and the \<open>ELSE\<close>
  branch is taken.
\<close>

definition continente_do_grupo :: "string option \<Rightarrow> continente" where
  "continente_do_grupo grupo =
     (case grupo of
        None \<Rightarrow> Outros
      | Some g \<Rightarrow>
          if contem ''America'' g then Americas
          else if contem ''Europe'' g then Europa
          else if contem ''Pacific'' g then Asia_Pacifico
          else Outros)"

text \<open>The \<open>SELECT DISTINCT ... WHERE t."TerritoryID" IS NOT NULL\<close>.\<close>

definition selecionar_regiao :: "territorio \<Rightarrow> regiao_selecionada option" where
  "selecionar_regiao t =
     (case TerritoryID t of
        None \<Rightarrow> None
      | Some k \<Rightarrow>
          Some \<lparr>nk_regiao = k,
                nome_territorio = Name t,
                codigo_pais = CountryRegionCode t,
                nome_pais = CountryRegionCode t,
                continente = continente_do_grupo (Group t),
                grupo_regional = Group t\<rparr>)"

definition selecionar_regioes :: "territorio list \<Rightarrow> regiao_selecionada list" where
  "selecionar_regioes stage_territorios = remdups (List.map_filter selecionar_regiao stage_territorios)"

text \<open>
  \<open>ON CONFLICT (nk_regiao) DO UPDATE SET nome_territorio = EXCLUDED.nome_territorio,
  grupo_regional = EXCLUDED.grupo_regional\<close> on the row that holds the natural key.
\<close>

definition atualizar_regiao :: "regiao_selecionada \<Rightarrow> linha_regiao \<Rightarrow> linha_regiao" where
  "atualizar_regiao excluded r =
     (if nk_regiao r = nk_regiao excluded
      then r\<lparr>nome_territorio := nome_territorio excluded,
              grupo_regional := grupo_regional excluded\<rparr>
      else r)"

definition inserir_regiao :: "regiao_selecionada \<Rightarrow> int \<Rightarrow> linha_regiao" where
  "inserir_regiao s sk =
     \<lparr>nk_regiao = nk_regiao s,
      nome_territorio = nome_territorio s,
      codigo_pais = codigo_pais s,
      nome_pais = nome_pais s,
      continente = continente s,
      grupo_regional = grupo_regional s,
      sk_regiao = sk\<rparr>"

text \<open>
  The rows of the \<open>SELECT\<close> go into the table one by one. \<open>tocadas\<close> are the natural
  keys this statement has already inserted or updated: a second row for one of them
  makes the engine reject the whole statement (\<open>ON CONFLICT DO UPDATE command cannot
  affect row a second time\<close>).
\<close>

fun upsert_regioes ::
  "regiao_selecionada list \<Rightarrow> int list \<Rightarrow> tabela_regiao \<Rightarrow> erro + tabela_regiao" where
  "upsert_regioes [] tocadas tab = Inr tab"
| "upsert_regioes (s # resto) tocadas tab =
     (if nk_regiao s \<in> set tocadas then Inl CardinalityViolation
      else if nk_regiao s \<in> set (map nk_regiao (linhas_regiao tab)) then
        upsert_regioes resto (nk_regiao s # tocadas)
          \<lparr>linhas_regiao = map (atualizar_regiao s) (linhas_regiao tab),
           proximo_sk_regiao = proximo_sk_regiao tab + 1\<rparr>
      else
        upsert_regioes resto (nk_regiao s # tocadas)
          \<lparr>linhas_regiao = linhas_regiao tab @ [inserir_regiao s (proximo_sk_regiao tab)],
           proximo_sk_regiao = proximo_sk_regiao tab + 1\<rparr>)"

text \<open>
  The task: one statement and the commit. An error leaves the table as it was (the
  transaction is rolled back when the \<open>with\<close> block is left by an exception).
\<close>

definition carregar_dimensao_regiao :: "territorio list \<Rightarrow> tabela_regiao \<Rightarrow> tabela_regiao \<times> erro option" where
  "carregar_dimensao_regiao stage_territorios tab =
     (case upsert_regioes (selecionar_regioes stage_territorios) [] tab of
        Inl e \<Rightarrow> (tab, Some e)
      | Inr tab' \<Rightarrow> (tab', None))"

text \<open>
  What an upsert may not change in a row of the dimension: the surrogate key, the natural
  key and the three columns that are absent from the \<open>DO UPDATE SET\<close> list.
\<close>

definition regiao_preservada :: "linha_regiao \<Rightarrow> linha_regiao \<Rightarrow> bool" where
  "regiao_preservada r r' =
     (sk_regiao r' = sk_regiao r \<and> nk_regiao r' = nk_regiao r \<and>
      codigo_pais r' = codigo_pais r \<and> nome_pais r' = nome_pais r \<and>
      continente r' = continente r)"

section \<open>Salesperson dimension (\<open>carregar_dimensao_vendedor\<close>)\<close>

text \<open>
  The rows of \<open>staging.stage_vendedores\<close> (\<open>sp\<close>), \<open>staging.stage_funcionarios\<close>
  (\<open>e\<close>) and \<open>staging.stage_pessoas\<close> (\<open>p\<close>), with the columns the statement reads.
\<close>

record vendedor_fonte =
  sp_BusinessEntityID :: "int option"
  sp_TerritoryID :: "int option"
  sp_SalesQuota :: "rat option"
  sp_CommissionPct :: "rat option"

record funcionario =
  e_BusinessEntityID :: "int option"
  e_HireDate :: "data option"

record pessoa =
  p_BusinessEntityID :: "int option"
  p_FirstName :: "string option"
  p_LastName :: "string option"

text \<open>A row produced by the \<open>SELECT\<close>, and a row of \<open>dw.dim_vendedor\<close>.\<close>

record vendedor_selecionado =
  dv_nk_vendedor :: int
  dv_nome_vendedor :: string
  dv_codigo_vendedor :: string
  dv_sk_regiao :: "int option"
  dv_data_admissao :: "data option"
  dv_meta_anual :: rat
  dv_comissao_percentual :: rat

record linha_vendedor = vendedor_selecionado +
  dv_sk_vendedor :: int

text \<open>
  Modelled from the spec: the declaration of \<open>dw.dim_vendedor\<close> is not part of the source
  file. As for the region dimension, the surrogate key comes from a sequence and the
  natural key \<open>nk_vendedor\<close> is unique.
\<close>

record tabela_vendedor =
  linhas_vendedor :: "linha_vendedor list"
  proximo_sk_vendedor :: int

text \<open>
  \<open>::TEXT\<close> on an integer, its decimal digits; \<open>LPAD(texto, n, '0')\<close>, which fills on the
  left up to \<open>n\<close> characters and cuts a longer text down to its first \<open>n\<close>; and \<open>||\<close>,
  which is \<open>NULL\<close> when an operand is.
\<close>

function digitos :: "nat \<Rightarrow> string" where
  "digitos n = (if n < 10 then [''0123456789'' ! n]
                else digitos (n div 10) @ [''0123456789'' ! (n mod 10)])"
  by pat_completeness auto
termination
  by (relation "measure (\<lambda>n. n)") auto

declare digitos.simps [simp del]

definition texto_de_int :: "int \<Rightarrow> string" where
  "texto_de_int i = (if i < 0 then ''-'' @ digitos (nat (- i)) else digitos (nat i))"

definition lpad :: "string \<Rightarrow> nat \<Rightarrow> char \<Rightarrow> string" where
  "lpad texto n c =
     (if n \<le> length texto then take n texto else replicate (n - length texto) c @ texto)"

definition concatenar :: "string option \<Rightarrow> string option \<Rightarrow> string option" where
  "concatenar a b = (case (a, b) of (Some x, Some y) \<Rightarrow> Some (x @ y) | _ \<Rightarrow> None)"

text \<open>The select list for one joined row; \<open>ident\<close> is the id of the salesperson, not \<open>NULL\<close>.\<close>

definition calcular_vendedor ::
  "vendedor_fonte \<Rightarrow> int \<Rightarrow> funcionario option \<Rightarrow> pessoa option \<Rightarrow> linha_regiao option \<Rightarrow>
   erro + vendedor_selecionado" where
  "calcular_vendedor sp ident e p dr =
     (case numeric_cast 18 2 (coalesce0 (sp_SalesQuota sp)) of
        Inl erro \<Rightarrow> Inl erro
      | Inr meta_anual \<Rightarrow>
          (case numeric_cast 5 2 (coalesce0 (sp_CommissionPct sp)) of
             Inl erro \<Rightarrow> Inl erro
           | Inr comissao_percentual \<Rightarrow>
               Inr \<lparr>dv_nk_vendedor = ident,
                    dv_nome_vendedor =
                      (case concatenar (concatenar (Option.bind p p_FirstName) (Some '' ''))
                              (Option.bind p p_LastName) of
                         None \<Rightarrow> ''Vendedor '' @ texto_de_int ident
                       | Some nome \<Rightarrow> nome),
                    dv_codigo_vendedor = ''V'' @ lpad (texto_de_int ident) 5 (CHR ''0''),
                    dv_sk_regiao = map_option sk_regiao dr,
                    dv_data_admissao = Option.bind e e_HireDate,
                    dv_meta_anual = meta_anual,
                    dv_comissao_percentual = comissao_percentual\<rparr>))"

text \<open>
  The joins for one staged salesperson: none when the id is \<open>NULL\<close> (the \<open>WHERE\<close>
  clause); otherwise the employee, the person and the region row are looked up by left
  joins, the region in \<open>dw.dim_regiao\<close> as it stands when the statement runs.
\<close>

definition linhas_do_vendedor ::
  "funcionario list \<Rightarrow> pessoa list \<Rightarrow> linha_regiao list \<Rightarrow> vendedor_fonte \<Rightarrow>
   (erro + vendedor_selecionado) list" where
  "linhas_do_vendedor stage_funcionarios stage_pessoas dim_regiao_atual sp =
     (case sp_BusinessEntityID sp of
        None \<Rightarrow> []
      | Some ident \<Rightarrow>
          concat (map (\<lambda>e.
          concat (map (\<lambda>p.
                  map (\<lambda>dr. calcular_vendedor sp ident e p dr)
            (left_join nk_regiao (sp_TerritoryID sp) dim_regiao_atual))
            (left_join_null p_BusinessEntityID ident stage_pessoas)))
            (left_join_null e_BusinessEntityID ident stage_funcionarios)))"

text \<open>
  \<open>ON CONFLICT (nk_vendedor) DO UPDATE SET\<close> name, region key, quota and commission.
\<close>

definition atualizar_vendedor :: "vendedor_selecionado \<Rightarrow> linha_vendedor \<Rightarrow> linha_vendedor" where
  "atualizar_vendedor excluded r =
     (if dv_nk_vendedor r = dv_nk_vendedor excluded
      then r\<lparr>dv_nome_vendedor := dv_nome_vendedor excluded,
              dv_sk_regiao := dv_sk_regiao excluded,
              dv_meta_anual := dv_meta_anual excluded,
              dv_comissao_percentual := dv_comissao_percentual excluded\<rparr>
      else r)"

definition inserir_vendedor :: "vendedor_selecionado \<Rightarrow> int \<Rightarrow> linha_vendedor" where
  "inserir_vendedor s sk =
     \<lparr>dv_nk_vendedor = dv_nk_vendedor s,
      dv_nome_vendedor = dv_nome_vendedor s,
      dv_codigo_vendedor = dv_codigo_vendedor s,
      dv_sk_regiao = dv_sk_regiao s,
      dv_data_admissao = dv_data_admissao s,
      dv_meta_anual = dv_meta_anual s,
      dv_comissao_percentual = dv_comissao_percentual s,
      dv_sk_vendedor = sk\<rparr>"

fun upsert_vendedores ::
  "vendedor_selecionado list \<Rightarrow> int list \<Rightarrow> tabela_vendedor \<Rightarrow> erro + tabela_vendedor" where
  "upsert_vendedores [] tocadas tab = Inr tab"
| "upsert_vendedores (s # resto) tocadas tab =
     (if dv_nk_vendedor s \<in> set tocadas then Inl CardinalityViolation
      else if dv_nk_vendedor s \<in> set (map dv_nk_vendedor (linhas_vendedor tab)) then
        upsert_vendedores resto (dv_nk_vendedor s # tocadas)
          \<lparr>linhas_vendedor = map (atualizar_vendedor s) (linhas_vendedor tab),
           proximo_sk_vendedor = proximo_sk_vendedor tab + 1\<rparr>
      else
        upsert_vendedores resto (dv_nk_vendedor s # tocadas)
          \<lparr>linhas_vendedor = linhas_vendedor tab @ [inserir_vendedor s (proximo_sk_vendedor tab)],
           proximo_sk_vendedor = proximo_sk_vendedor tab + 1\<rparr>)"

definition carregar_dimensao_vendedor ::
  "vendedor_fonte list \<Rightarrow> funcionario list \<Rightarrow> pessoa list \<Rightarrow> linha_regiao list \<Rightarrow>
   tabela_vendedor \<Rightarrow> tabela_vendedor \<times> erro option" where
  "carregar_dimensao_vendedor stage_vendedores stage_funcionarios stage_pessoas
       dim_regiao_atual tab =
     (case todas_ou_erro
             (concat (map (linhas_do_vendedor stage_funcionarios stage_pessoas dim_regiao_atual)
                        stage_vendedores)) of
        Inl e \<Rightarrow> (tab, Some e)
      | Inr selecionadas \<Rightarrow>
          (case upsert_vendedores (remdups selecionadas) [] tab of
             Inl e \<Rightarrow> (tab, Some e)
           | Inr tab' \<Rightarrow> (tab', None)))"

subsection \<open>Example: one territory and its salesperson\<close>

definition territorios_exemplo :: "territorio list" where
  "territorios_exemplo =
     [\<lparr>TerritoryID = Some 5, Name = Some ''Southeast'', CountryRegionCode = Some ''US'',
       Group = Some ''North America''\<rparr>]"

definition vendedores_exemplo :: "vendedor_fonte list" where
  "vendedores_exemplo =
     [\<lparr>sp_BusinessEntityID = Some 279, sp_TerritoryID = Some 5,
       sp_SalesQuota = Some 300000, sp_CommissionPct = Some (1 / 100)\<rparr>]"

definition funcionarios_exemplo :: "funcionario list" where
  "funcionarios_exemplo = [\<lparr>e_BusinessEntityID = Some 279, e_HireDate = Some (2011, 5, 31)\<rparr>]"

definition pessoas_exemplo :: "pessoa list" where
  "pessoas_exemplo =
     [\<lparr>p_BusinessEntityID = Some 279, p_FirstName = Some ''Tsvi'', p_LastName = Some ''Reiter''\<rparr>]"

definition regiao_vazia :: tabela_regiao where
  "regiao_vazia = \<lparr>linhas_regiao = [], proximo_sk_regiao = 1\<rparr>"

definition vendedor_vazia :: tabela_vendedor where
  "vendedor_vazia = \<lparr>linhas_vendedor = [], proximo_sk_vendedor = 1\<rparr>"

section \<open>Fact load (\<open>carregar_fato_vendas\<close>)\<close>

subsection \<open>Tables read by the statement\<close>

text \<open>
  The staged order lines (\<open>sod\<close>) and order headers (\<open>soh\<close>), and the rows of the
  customer, product and offer dimensions with the columns the statement reads, named
  after the aliases of the statement; the rows of the region and salesperson dimensions
  are those of their loads. The staged key and quantity columns hold integers, the price and the
  discount hold \<open>NUMERIC\<close> values, the order date a timestamp of which only the date is
  read.
\<close>

record pedido_detalhe =
  sod_SalesOrderID :: "int option"
  sod_SalesOrderDetailID :: "int option"
  sod_OrderQty :: "int option"
  sod_ProductID :: "int option"
  sod_SpecialOfferID :: "int option"
  sod_UnitPrice :: "rat option"
  sod_UnitPriceDiscount :: "rat option"

record pedido_header =
  soh_SalesOrderID :: "int option"
  soh_OrderDate :: "data option"
  soh_CustomerID :: "int option"
  soh_TerritoryID :: "int option"
  soh_SalesPersonID :: "int option"

record linha_cliente =
  dc_sk_cliente :: int
  dc_nk_cliente :: int

record linha_produto =
  dp_sk_produto :: int
  dp_nk_produto :: int
  dp_custo_unitario :: "rat option"

record linha_oferta =
  do_sk_oferta :: int
  do_nk_oferta :: int

record entrada_fato =
  stage_pedidos_detalhe :: "pedido_detalhe list"
  stage_pedidos_header :: "pedido_header list"
  dim_cliente :: "linha_cliente list"
  dim_produto :: "linha_produto list"
  dim_regiao :: "linha_regiao list"
  dim_vendedor :: "linha_vendedor list"
  dim_oferta :: "linha_oferta list"

text \<open>
  A row of \<open>dw.fato_vendas\<close> as the \<open>SELECT\<close> produces it (the table's own column types
  are declared outside the source file). The fields carry the column names behind the
  prefix \<open>fv_\<close>.
\<close>

record linha_fato =
  fv_sk_tempo :: "int option"
  fv_sk_cliente :: "int option"
  fv_sk_produto :: "int option"
  fv_sk_regiao :: "int option"
  fv_sk_vendedor :: "int option"
  fv_sk_oferta :: "int option"
  fv_numero_pedido :: int
  fv_numero_linha :: int
  fv_quantidade_vendida :: "int option"
  fv_valor_unitario :: "rat option"
  fv_valor_bruto :: "rat option"
  fv_valor_desconto :: "rat option"
  fv_valor_liquido :: "rat option"
  fv_custo_total :: "rat option"
  fv_lucro_bruto :: "rat option"
  fv_percentual_desconto :: rat
  fv_margem_contribuicao :: "rat option"

subsection \<open>The select list\<close>

text \<open>
  The metrics of one joined row, in the order of the select list.
  \<open>CASE WHEN valor_liquido > 0\<close> is not true on a \<open>NULL\<close>.
\<close>

definition positivo :: "rat option \<Rightarrow> bool" where
  "positivo a = (case a of None \<Rightarrow> False | Some x \<Rightarrow> x > 0)"

definition calcular_linha ::
  "(rat \<Rightarrow> rat \<Rightarrow> rat) \<Rightarrow> pedido_detalhe \<Rightarrow> pedido_header \<Rightarrow> int \<Rightarrow> int \<Rightarrow>
   linha_cliente option \<Rightarrow> linha_produto option \<Rightarrow> linha_regiao option \<Rightarrow>
   linha_vendedor option \<Rightarrow> linha_oferta option \<Rightarrow> erro + linha_fato" where
  "calcular_linha dividir sod soh pedido linha dc dp dr dv do_oferta =
     (case numeric_cast_null 15 4 (sod_UnitPrice sod) of
        Inl e \<Rightarrow> Inl e
      | Inr valor_unitario \<Rightarrow>
          (let quantidade = map_option of_int (sod_OrderQty sod);
               desconto = coalesce0 (sod_UnitPriceDiscount sod);
               custo_unitario = coalesce0 (Option.bind dp dp_custo_unitario);
               valor_bruto = vezes valor_unitario quantidade;
               valor_desconto = vezes valor_bruto (Some desconto);
               valor_liquido = vezes valor_bruto (Some (1 - desconto));
               custo_total = vezes (Some custo_unitario) quantidade;
               lucro_bruto = menos valor_liquido custo_total
           in
           case numeric_cast 5 2 (desconto * 100) of
             Inl e \<Rightarrow> Inl e
           | Inr percentual_desconto \<Rightarrow>
               (case (if positivo valor_liquido
                      then numeric_cast_null 5 2
                             (vezes (dividido dividir lucro_bruto valor_liquido) (Some 100))
                      else Inr (Some 0)) of
                  Inl e \<Rightarrow> Inl e
                | Inr margem_contribuicao \<Rightarrow>
                    Inr \<lparr>fv_sk_tempo = map_option chave_tempo (soh_OrderDate soh),
                         fv_sk_cliente = map_option dc_sk_cliente dc,
                         fv_sk_produto = map_option dp_sk_produto dp,
                         fv_sk_regiao = map_option sk_regiao dr,
                         fv_sk_vendedor = map_option dv_sk_vendedor dv,
                         fv_sk_oferta = map_option do_sk_oferta do_oferta,
                         fv_numero_pedido = pedido,
                         fv_numero_linha = linha,
                         fv_quantidade_vendida = sod_OrderQty sod,
                         fv_valor_unitario = valor_unitario,
                         fv_valor_bruto = valor_bruto,
                         fv_valor_desconto = valor_desconto,
                         fv_valor_liquido = valor_liquido,
                         fv_custo_total = custo_total,
                         fv_lucro_bruto = lucro_bruto,
                         fv_percentual_desconto = percentual_desconto,
                         fv_margem_contribuicao = margem_contribuicao\<rparr>)))"

subsection \<open>Joins and filter\<close>

text \<open>
  The rows the \<open>SELECT\<close> yields for one pair of an order line and an order header:
  none unless the inner join condition and the \<open>WHERE\<close> clause hold, which needs both
  order ids equal and not \<open>NULL\<close> and the order line id not \<open>NULL\<close>; otherwise one row for
  each combination of the matching dimension rows.
\<close>

definition linhas_do_par ::
  "(rat \<Rightarrow> rat \<Rightarrow> rat) \<Rightarrow> entrada_fato \<Rightarrow> pedido_detalhe \<Rightarrow> pedido_header \<Rightarrow>
   (erro + linha_fato) list" where
  "linhas_do_par dividir e sod soh =
     (case (soh_SalesOrderID soh, sod_SalesOrderID sod, sod_SalesOrderDetailID sod) of
        (Some pedido, Some pedido_sod, Some linha) \<Rightarrow>
          if pedido = pedido_sod then
            concat (map (\<lambda>dc.
            concat (map (\<lambda>dp.
            concat (map (\<lambda>dr.
            concat (map (\<lambda>dv.
                    map (\<lambda>do_oferta.
                      calcular_linha dividir sod soh pedido linha dc dp dr dv do_oferta)
              (left_join do_nk_oferta (sod_SpecialOfferID sod) (dim_oferta e)))
              (left_join dv_nk_vendedor (soh_SalesPersonID soh) (dim_vendedor e))))
              (left_join nk_regiao (soh_TerritoryID soh) (dim_regiao e))))
              (left_join dp_nk_produto (sod_ProductID sod) (dim_produto e))))
              (left_join dc_nk_cliente (soh_CustomerID soh) (dim_cliente e)))
          else []
      | _ \<Rightarrow> [])"

definition linhas_do_detalhe ::
  "(rat \<Rightarrow> rat \<Rightarrow> rat) \<Rightarrow> entrada_fato \<Rightarrow> pedido_detalhe \<Rightarrow> (erro + linha_fato) list" where
  "linhas_do_detalhe dividir e sod =
     concat (map (linhas_do_par dividir e sod) (stage_pedidos_header e))"

definition selecionar_fatos :: "(rat \<Rightarrow> rat \<Rightarrow> rat) \<Rightarrow> entrada_fato \<Rightarrow> erro + linha_fato list" where
  "selecionar_fatos dividir e =
     todas_ou_erro (concat (map (linhas_do_detalhe dividir e) (stage_pedidos_detalhe e)))"

subsection \<open>Insertion and the task\<close>

text \<open>
  \<open>ON CONFLICT (numero_pedido, numero_linha) DO NOTHING\<close>: a row whose composite key is
  already in the table, be it from an earlier run or from an earlier row of this
  statement, is skipped.
\<close>

definition chave_fato :: "linha_fato \<Rightarrow> int \<times> int" where
  "chave_fato r = (fv_numero_pedido r, fv_numero_linha r)"

fun inserir_fatos :: "linha_fato list \<Rightarrow> linha_fato list \<Rightarrow> linha_fato list" where
  "inserir_fatos [] fato_vendas = fato_vendas"
| "inserir_fatos (r # resto) fato_vendas =
     (if chave_fato r \<in> set (map chave_fato fato_vendas)
      then inserir_fatos resto fato_vendas
      else inserir_fatos resto (fato_vendas @ [r]))"

text \<open>
  \<open>SELECT SUM(coluna)\<close> is \<open>NULL\<close> when no row has a value in the column. The closing
  log line formats both sums with \<open>:,.2f\<close>, which raises \<open>TypeError\<close> on \<open>None\<close>; by then
  the insertion is committed.
\<close>

definition soma :: "rat option list \<Rightarrow> rat option" where
  "soma valores =
     (case List.map_filter (\<lambda>v. v) valores of [] \<Rightarrow> None | vs \<Rightarrow> Some (sum_list vs))"

definition carregar_fato_vendas ::
  "(rat \<Rightarrow> rat \<Rightarrow> rat) \<Rightarrow> entrada_fato \<Rightarrow> linha_fato list \<Rightarrow> linha_fato list \<times> erro option" where
  "carregar_fato_vendas dividir e fato_vendas =
     (case selecionar_fatos dividir e of
        Inl erro \<Rightarrow> (fato_vendas, Some erro)
      | Inr novas \<Rightarrow>
          (let fato_vendas' = inserir_fatos novas fato_vendas in
           if soma (map fv_valor_liquido fato_vendas') = None \<or>
              soma (map fv_lucro_bruto fato_vendas') = None
           then (fato_vendas', Some TypeError)
           else (fato_vendas', None)))"

text \<open>An order line with both components of the composite key present.\<close>

definition chave_completa :: "pedido_detalhe \<Rightarrow> bool" where
  "chave_completa sod = (sod_SalesOrderID sod \<noteq> None \<and> sod_SalesOrderDetailID sod \<noteq> None)"

subsection \<open>Example rows\<close>

text \<open>
  One staged order line (two units at 100 with a discount of one tenth), its header, and
  the product row with a unit cost of 60; the fact row that the select list computes
  from them with an exact quotient; and a row stored earlier under the same composite
  key with other amounts.
\<close>

definition detalhe_exemplo :: pedido_detalhe where
  "detalhe_exemplo =
     \<lparr>sod_SalesOrderID = Some 43659, sod_SalesOrderDetailID = Some 1, sod_OrderQty = Some 2,
      sod_ProductID = Some 776, sod_SpecialOfferID = Some 1, sod_UnitPrice = Some 100,
      sod_UnitPriceDiscount = Some (1 / 10)\<rparr>"

definition header_exemplo :: pedido_header where
  "header_exemplo =
     \<lparr>soh_SalesOrderID = Some 43659, soh_OrderDate = Some (2011, 5, 31),
      soh_CustomerID = Some 29825, soh_TerritoryID = Some 5, soh_SalesPersonID = Some 279\<rparr>"

definition produto_exemplo :: linha_produto where
  "produto_exemplo = \<lparr>dp_sk_produto = 1, dp_nk_produto = 776, dp_custo_unitario = Some 60\<rparr>"

definition entrada_exemplo :: entrada_fato where
  "entrada_exemplo =
     \<lparr>stage_pedidos_detalhe = [detalhe_exemplo], stage_pedidos_header = [header_exemplo],
      dim_cliente = [], dim_produto = [produto_exemplo], dim_regiao = [], dim_vendedor = [],
      dim_oferta = []\<rparr>"

definition fato_exemplo :: linha_fato where
  "fato_exemplo =
     \<lparr>fv_sk_tempo = Some 20110531, fv_sk_cliente = None, fv_sk_produto = Some 1,
      fv_sk_regiao = None, fv_sk_vendedor = None, fv_sk_oferta = None,
      fv_numero_pedido = 43659, fv_numero_linha = 1, fv_quantidade_vendida = Some 2,
      fv_valor_unitario = Some 100, fv_valor_bruto = Some 200, fv_valor_desconto = Some 20,
      fv_valor_liquido = Some 180, fv_custo_total = Some 120, fv_lucro_bruto = Some 60,
      fv_percentual_desconto = 10, fv_margem_contribuicao = Some (3333 / 100)\<rparr>"

definition fato_antigo :: linha_fato where
  "fato_antigo =
     \<lparr>fv_sk_tempo = Some 20110531, fv_sk_cliente = None, fv_sk_produto = None,
      fv_sk_regiao = None, fv_sk_vendedor = None, fv_sk_oferta = None,
      fv_numero_pedido = 43659, fv_numero_linha = 1, fv_quantidade_vendida = Some 2,
      fv_valor_unitario = Some 100, fv_valor_bruto = Some 200, fv_valor_desconto = Some 20,
      fv_valor_liquido = Some 180, fv_custo_total = Some 0, fv_lucro_bruto = Some 180,
      fv_percentual_desconto = 10, fv_margem_contribuicao = Some 100\<rparr>"




section \<open>The dependency graph of the run (\<open>dag\<close>)\<close>

text \<open>
  The tasks declared inside \<open>with DAG(...) as dag\<close>, under the names of their Python
  variables.
\<close>

datatype tarefa =
    inicio_pipeline
  | task_dim_tempo
  | task_staging
  | checkpoint_staging
  | task_dim_cliente
  | task_dim_produto
  | task_dim_regiao
  | task_dim_vendedor
  | task_dim_oferta
  | checkpoint_dimensoes
  | task_fato_vendas
  | fim_pipeline

definition todas_tarefas :: "tarefa list" where
  "todas_tarefas =
     [inicio_pipeline, fim_pipeline, task_dim_tempo, task_staging, checkpoint_staging,
      task_dim_cliente, task_dim_produto, task_dim_regiao, task_dim_vendedor,
      task_dim_oferta, checkpoint_dimensoes, task_fato_vendas]"

text \<open>
  \<open>a >> b\<close> makes \<open>b\<close> a downstream task of \<open>a\<close>; with a list on either side, every
  task of the list gets the edge. A chain \<open>a >> b >> c\<close> links each operand to the next.
\<close>

definition arestas_entre :: "tarefa list \<Rightarrow> tarefa list \<Rightarrow> (tarefa \<times> tarefa) list" where
  "arestas_entre montante jusante = concat (map (\<lambda>a. map (\<lambda>b. (a, b)) jusante) montante)"

fun cadeia :: "tarefa list list \<Rightarrow> (tarefa \<times> tarefa) list" where
  "cadeia (g # h # resto) = arestas_entre g h @ cadeia (h # resto)"
| "cadeia _ = []"

definition dag_arestas :: "(tarefa \<times> tarefa) list" where
  "dag_arestas =
     cadeia [[inicio_pipeline], [task_dim_tempo], [task_staging], [checkpoint_staging]] @
     cadeia [[checkpoint_staging],
             [task_dim_cliente, task_dim_produto, task_dim_regiao, task_dim_vendedor,
              task_dim_oferta],
             [checkpoint_dimensoes]] @
     cadeia [[checkpoint_dimensoes], [task_fato_vendas], [fim_pipeline]]"

text \<open>
  A run executes every task once, one after the other, and the scheduler starts a task
  only when all its upstream tasks are done: a run is a list of the tasks in which every
  edge points forward. \<open>antes ordem a b\<close> says that \<open>a\<close> has finished in \<open>ordem\<close>
  before \<open>b\<close> starts.
\<close>

fun posicao :: "tarefa list \<Rightarrow> tarefa \<Rightarrow> nat option" where
  "posicao [] t = None"
| "posicao (x # xs) t = (if x = t then Some 0 else map_option Suc (posicao xs t))"

definition antes :: "tarefa list \<Rightarrow> tarefa \<Rightarrow> tarefa \<Rightarrow> bool" where
  "antes ordem a b =
     (case (posicao ordem a, posicao ordem b) of
        (Some i, Some j) \<Rightarrow> i < j
      | _ \<Rightarrow> False)"

definition execucao_valida :: "(tarefa \<times> tarefa) list \<Rightarrow> tarefa list \<Rightarrow> bool" where
  "execucao_valida arestas ordem =
     (distinct ordem \<and> set ordem = set todas_tarefas \<and>
      list_all (\<lambda>(a, b). antes ordem a b) arestas)"

section \<open>Properties of the type inference\<close>

lemma tipos_observados_Nil: "tipos_observados [] = {}"
  by (simp add: tipos_observados_def)

lemma tipos_observados_Cons:
  "tipos_observados (x # xs) =
     (case classificar x of None \<Rightarrow> tipos_observados xs
      | Some t \<Rightarrow> insert t (tipos_observados xs))"
  unfolding tipos_observados_def by (cases "classificar x") auto

lemma fold_registrar:
  "fold registrar xs T = T \<union> tipos_observados xs"
proof (induction xs arbitrary: T)
  case Nil
  show ?case by (simp add: tipos_observados_Nil)
next
  case (Cons x xs)
  have "fold registrar (x # xs) T = fold registrar xs (registrar x T)" by simp
  also have "\<dots> = registrar x T \<union> tipos_observados xs" by (rule Cons.IH)
  also have "\<dots> = T \<union> tipos_observados (x # xs)"
    by (cases "classificar x") (simp_all add: registrar_def tipos_observados_Cons)
  finally show ?case .
qed

lemma tipos_encontrados_observados:
  "tipos_encontrados amostras = tipos_observados amostras"
  by (simp add: tipos_encontrados_def fold_registrar)

lemma inferir_vazio:
  "tipos_observados xs = {} \<Longrightarrow> inferir_tipo_coluna xs = TEXT"
  by (simp add: inferir_tipo_coluna_def tipos_encontrados_observados)

lemma inferir_unitario:
  "tipos_observados xs = {t} \<Longrightarrow> inferir_tipo_coluna xs = t"
  by (simp add: inferir_tipo_coluna_def tipos_encontrados_observados)

lemma inferir_promove:
  "tipos_observados xs = {INTEGER, NUMERIC_18_4} \<Longrightarrow>
     inferir_tipo_coluna xs = NUMERIC_18_4"
  by (simp add: inferir_tipo_coluna_def tipos_encontrados_observados)

lemma subconjunto_par:
  assumes "T \<subseteq> {a, b}" "T \<noteq> {}" "\<forall>t. T \<noteq> {t}"
  shows "T = {a, b}"
proof -
  have "a \<in> T"
  proof (rule ccontr)
    assume "a \<notin> T"
    with assms(1) have "T \<subseteq> {b}" by blast
    with assms(2,3) show False by (meson subset_singletonD)
  qed
  moreover have "b \<in> T"
  proof (rule ccontr)
    assume "b \<notin> T"
    with assms(1) have "T \<subseteq> {a}" by blast
    with assms(2,3) show False by (meson subset_singletonD)
  qed
  ultimately show ?thesis using assms(1) by blast
qed

lemma inferir_mistura:
  assumes "tipos_observados xs \<noteq> {}" "\<forall>t. tipos_observados xs \<noteq> {t}"
    "tipos_observados xs \<noteq> {INTEGER, NUMERIC_18_4}"
  shows "inferir_tipo_coluna xs = TEXT"
proof -
  have c: "card (tipos_observados xs) \<noteq> 1"
    using assms(2) by (simp add: card_1_singleton_iff)
  have s: "\<not> tipos_observados xs \<subseteq> {INTEGER, NUMERIC_18_4}"
    using subconjunto_par [OF _ assms(1,2)] assms(3) by blast
  show ?thesis
    using assms(1) c s
    by (simp add: inferir_tipo_coluna_def tipos_encontrados_observados)
qed

lemma inferir_so_conjunto:
  "tipos_observados ys = tipos_observados xs \<Longrightarrow> inferir_tipo_coluna ys = inferir_tipo_coluna xs"
  by (simp add: inferir_tipo_coluna_def tipos_encontrados_observados)

lemma inferir_booleano_misturado:
  assumes "BOOLEAN \<in> tipos_observados xs" "tipos_observados xs \<noteq> {BOOLEAN}"
  shows "inferir_tipo_coluna xs = TEXT"
proof (rule inferir_mistura)
  show "tipos_observados xs \<noteq> {}" using assms(1) by blast
  show "\<forall>t. tipos_observados xs \<noteq> {t}" using assms by auto
  show "tipos_observados xs \<noteq> {INTEGER, NUMERIC_18_4}" using assms(1) by auto
qed

text \<open>
  Claim C1. For every sample, with \<open>None\<close> values left out, the inferred type follows
  the table: no classification observed gives TEXT; exactly one classification gives that
  type; exactly INTEGER together with NUMERIC(18,4) gives NUMERIC(18,4); every other
  mixture gives TEXT, in particular BOOLEAN mixed with anything else. The result depends
  on the sample only through the set of observed classifications, so inferring again on
  the same sample (or on any sample with the same set) gives the same type.
\<close>

theorem inferir_tipo_coluna_tabela:
  "(tipos_observados amostras = {} \<longrightarrow> inferir_tipo_coluna amostras = TEXT) \<and>
   (\<forall>t. tipos_observados amostras = {t} \<longrightarrow> inferir_tipo_coluna amostras = t) \<and>
   (tipos_observados amostras = {INTEGER, NUMERIC_18_4} \<longrightarrow>
      inferir_tipo_coluna amostras = NUMERIC_18_4) \<and>
   (tipos_observados amostras \<noteq> {} \<and> (\<forall>t. tipos_observados amostras \<noteq> {t}) \<and>
    tipos_observados amostras \<noteq> {INTEGER, NUMERIC_18_4} \<longrightarrow>
      inferir_tipo_coluna amostras = TEXT) \<and>
   (BOOLEAN \<in> tipos_observados amostras \<and> tipos_observados amostras \<noteq> {BOOLEAN} \<longrightarrow>
      inferir_tipo_coluna amostras = TEXT) \<and>
   (tipos_observados outras = tipos_observados amostras \<longrightarrow>
      inferir_tipo_coluna outras = inferir_tipo_coluna amostras)"
  using inferir_vazio inferir_unitario inferir_promove inferir_mistura
    inferir_booleano_misturado inferir_so_conjunto
  by (intro conjI impI allI) blast+

text \<open>
  The table at four concrete samples: integers with a decimal, nothing but \<open>None\<close>,
  a boolean with an integer, and strings.
\<close>

theorem inferir_tipo_coluna_tabela_witness:
  "tipos_observados [PyInt 7, PyNone, PyDecimal (5/2)] = {INTEGER, NUMERIC_18_4} \<and>
   inferir_tipo_coluna [PyInt 7, PyNone, PyDecimal (5/2)] = NUMERIC_18_4 \<and>
   tipos_observados [PyNone, PyNone] = {} \<and>
   inferir_tipo_coluna [PyNone, PyNone] = TEXT \<and>
   tipos_observados [PyBool True, PyInt 1] = {BOOLEAN, INTEGER} \<and>
   inferir_tipo_coluna [PyBool True, PyInt 1] = TEXT \<and>
   tipos_observados [PyStr ''a'', PyNone, PyStr ''b''] = {TEXT} \<and>
   inferir_tipo_coluna [PyStr ''a'', PyNone, PyStr ''b''] = TEXT"
proof -
  have a: "tipos_observados [PyInt 7, PyNone, PyDecimal (5/2)] = {INTEGER, NUMERIC_18_4}"
    by (simp add: tipos_observados_Cons tipos_observados_Nil)
  have b: "tipos_observados [PyNone, PyNone] = {}"
    by (simp add: tipos_observados_Cons tipos_observados_Nil)
  have c: "tipos_observados [PyBool True, PyInt 1] = {BOOLEAN, INTEGER}"
    by (simp add: tipos_observados_Cons tipos_observados_Nil)
  have d: "BOOLEAN \<in> tipos_observados [PyBool True, PyInt 1] \<and>
           tipos_observados [PyBool True, PyInt 1] \<noteq> {BOOLEAN}"
    unfolding c by auto
  have e: "tipos_observados [PyStr ''a'', PyNone, PyStr ''b''] = {TEXT}"
    by (simp add: tipos_observados_Cons tipos_observados_Nil)
  note t1 = inferir_tipo_coluna_tabela [of "[PyInt 7, PyNone, PyDecimal (5/2)]"]
  note t2 = inferir_tipo_coluna_tabela [of "[PyNone, PyNone]"]
  note t3 = inferir_tipo_coluna_tabela [of "[PyBool True, PyInt 1]"]
  note t4 = inferir_tipo_coluna_tabela [of "[PyStr ''a'', PyNone, PyStr ''b'']"]
  have a': "inferir_tipo_coluna [PyInt 7, PyNone, PyDecimal (5/2)] = NUMERIC_18_4"
    using t1 a by simp
  have b': "inferir_tipo_coluna [PyNone, PyNone] = TEXT"
    using t2 b by simp
  have c': "inferir_tipo_coluna [PyBool True, PyInt 1] = TEXT"
    using t3 d by simp
  have e': "inferir_tipo_coluna [PyStr ''a'', PyNone, PyStr ''b''] = TEXT"
    using t4 e by simp
  show ?thesis
    using a b c e a' b' c' e' by simp
qed

text \<open>
  Claim C8. A value that is a calendar date but not a datetime (and so neither bool, int,
  float nor Decimal) is classified as TEXT, not TIMESTAMP: only a datetime reaches the
  TIMESTAMP branch. A column of plain dates is inferred as TEXT, and one plain date among
  datetimes turns the column into TEXT.
\<close>

theorem data_sem_hora_vira_texto:
  "classificar (PyDate d) = Some TEXT \<and>
   classificar (PyDatetime d s) = Some TIMESTAMP \<and>
   registrar (PyDate d) tipos = insert TEXT tipos \<and>
   inferir_tipo_coluna [PyDate d] = TEXT \<and>
   inferir_tipo_coluna [PyDate d, PyNone, PyDate d'] = TEXT \<and>
   inferir_tipo_coluna [PyDatetime d s] = TIMESTAMP \<and>
   inferir_tipo_coluna [PyDatetime d s, PyDate d'] = TEXT"
  by (simp add: registrar_def inferir_tipo_coluna_def tipos_encontrados_observados
      tipos_observados_Cons tipos_observados_Nil)

section \<open>Properties of the date dimension seed\<close>






lemma data_le_total: "data_le a b \<or> data_le b a"
  by (cases a; cases b) auto























section \<open>Properties of the staging extraction\<close>















section \<open>Properties of the region dimension load\<close>

lemma atualizar_regiao_preserva: "regiao_preservada r (atualizar_regiao s r)"
  by (simp add: regiao_preservada_def atualizar_regiao_def)

lemma regiao_preservada_trans:
  "regiao_preservada a b \<Longrightarrow> regiao_preservada b c \<Longrightarrow> regiao_preservada a c"
  by (simp add: regiao_preservada_def)

lemma upsert_regioes_preserva:
  "upsert_regioes ss tocadas tab = Inr tab' \<Longrightarrow>
     length (linhas_regiao tab) \<le> length (linhas_regiao tab') \<and>
     (\<forall>i < length (linhas_regiao tab).
        regiao_preservada (linhas_regiao tab ! i) (linhas_regiao tab' ! i))"
proof (induction ss arbitrary: tocadas tab)
  case Nil
  then show ?case by (simp add: regiao_preservada_def)
next
  case (Cons s ss)
  show ?case
  proof (cases "nk_regiao s \<in> set tocadas")
    case True
    with Cons.prems show ?thesis by simp
  next
    case False
    note nt = False
    show ?thesis
    proof (cases "nk_regiao s \<in> set (map nk_regiao (linhas_regiao tab))")
      case True
      let ?t = "\<lparr>linhas_regiao = map (atualizar_regiao s) (linhas_regiao tab),
                 proximo_sk_regiao = proximo_sk_regiao tab + 1\<rparr>"
      have "upsert_regioes ss (nk_regiao s # tocadas) ?t = Inr tab'"
        using Cons.prems nt True by simp
      from Cons.IH [OF this]
      have l: "length (linhas_regiao ?t) \<le> length (linhas_regiao tab')"
        and p: "\<forall>i < length (linhas_regiao ?t).
                  regiao_preservada (linhas_regiao ?t ! i) (linhas_regiao tab' ! i)"
        by blast+
      have "\<forall>i < length (linhas_regiao tab).
              regiao_preservada (linhas_regiao tab ! i) (linhas_regiao tab' ! i)"
      proof (intro allI impI)
        fix i assume i: "i < length (linhas_regiao tab)"
        have "regiao_preservada (linhas_regiao tab ! i) (linhas_regiao ?t ! i)"
          using i by (simp add: atualizar_regiao_preserva)
        moreover have "regiao_preservada (linhas_regiao ?t ! i) (linhas_regiao tab' ! i)"
          using p i by simp
        ultimately show "regiao_preservada (linhas_regiao tab ! i) (linhas_regiao tab' ! i)"
          by (rule regiao_preservada_trans)
      qed
      with l show ?thesis by simp
    next
      case False
      let ?t = "\<lparr>linhas_regiao = linhas_regiao tab @ [inserir_regiao s (proximo_sk_regiao tab)],
                 proximo_sk_regiao = proximo_sk_regiao tab + 1\<rparr>"
      have "upsert_regioes ss (nk_regiao s # tocadas) ?t = Inr tab'"
        using Cons.prems nt False by simp
      from Cons.IH [OF this]
      have l: "length (linhas_regiao ?t) \<le> length (linhas_regiao tab')"
        and p: "\<forall>i < length (linhas_regiao ?t).
                  regiao_preservada (linhas_regiao ?t ! i) (linhas_regiao tab' ! i)"
        by blast+
      have "\<forall>i < length (linhas_regiao tab).
              regiao_preservada (linhas_regiao tab ! i) (linhas_regiao tab' ! i)"
      proof (intro allI impI)
        fix i assume i: "i < length (linhas_regiao tab)"
        then have "regiao_preservada (linhas_regiao ?t ! i) (linhas_regiao tab' ! i)"
          using p by simp
        then show "regiao_preservada (linhas_regiao tab ! i) (linhas_regiao tab' ! i)"
          using i by (simp add: nth_append)
      qed
      with l show ?thesis by simp
    qed
  qed
qed

lemma carregar_dimensao_regiao_preserva:
  assumes "carregar_dimensao_regiao stage tab = (tab', None)"
  shows "length (linhas_regiao tab) \<le> length (linhas_regiao tab') \<and>
     (\<forall>i < length (linhas_regiao tab).
        regiao_preservada (linhas_regiao tab ! i) (linhas_regiao tab' ! i))"
proof -
  have "upsert_regioes (selecionar_regioes stage) [] tab = Inr tab'"
    using assms by (simp add: carregar_dimensao_regiao_def split: sum.splits)
  then show ?thesis by (rule upsert_regioes_preserva)
qed

lemma upsert_um_conflito:
  "nk_regiao s \<in> set (map nk_regiao (linhas_regiao tab)) \<Longrightarrow>
     upsert_regioes [s] [] tab =
       Inr \<lparr>linhas_regiao = map (atualizar_regiao s) (linhas_regiao tab),
            proximo_sk_regiao = proximo_sk_regiao tab + 1\<rparr>"
  by simp

lemma exemplo_continente:
  "continente_do_grupo (Some ''Europe'') = Europa"
  "continente_do_grupo (Some ''North America'') = Americas"
  by (simp_all add: continente_do_grupo_def)

lemma exemplo_carga_regiao:
  "carregar_dimensao_regiao
     [\<lparr>TerritoryID = Some 1, Name = Some ''Northwest'', CountryRegionCode = Some ''GB'',
       Group = Some ''Europe''\<rparr>]
     \<lparr>linhas_regiao =
        [\<lparr>nk_regiao = 1, nome_territorio = Some ''Noroeste'', codigo_pais = Some ''US'',
          nome_pais = Some ''US'', continente = Americas,
          grupo_regional = Some ''North America'', sk_regiao = 1\<rparr>],
      proximo_sk_regiao = 2\<rparr> =
   (\<lparr>linhas_regiao =
        [\<lparr>nk_regiao = 1, nome_territorio = Some ''Northwest'', codigo_pais = Some ''US'',
          nome_pais = Some ''US'', continente = Americas,
          grupo_regional = Some ''Europe'', sk_regiao = 1\<rparr>],
      proximo_sk_regiao = 3\<rparr>, None)"
  by (simp add: carregar_dimensao_regiao_def selecionar_regioes_def selecionar_regiao_def
      List.map_filter_simps atualizar_regiao_def)

text \<open>
  Claim C9. On a natural-key conflict the region upsert overwrites the territory name
  and the regional group of the stored row and nothing else: country code, country name
  and continent (and both keys) keep the values of the first insert, for every row and
  every load that succeeds. The continent is computed from the regional group only for
  the row proposed for insertion, so after a change of the group a stored row can carry
  a continent that is not the one of its regional group.
\<close>

theorem regiao_conflito_so_atualiza_nome_e_grupo:
  "(nk_regiao s \<in> set (map nk_regiao (linhas_regiao tab)) \<longrightarrow>
      upsert_regioes [s] [] tab =
        Inr \<lparr>linhas_regiao = map (atualizar_regiao s) (linhas_regiao tab),
             proximo_sk_regiao = proximo_sk_regiao tab + 1\<rparr>) \<and>
   (nk_regiao r = nk_regiao s \<longrightarrow>
      atualizar_regiao s r =
        r\<lparr>nome_territorio := nome_territorio s, grupo_regional := grupo_regional s\<rparr>) \<and>
   regiao_preservada r (atualizar_regiao s r) \<and>
   (carregar_dimensao_regiao stage tab = (tab', None) \<longrightarrow>
      length (linhas_regiao tab) \<le> length (linhas_regiao tab') \<and>
      (\<forall>i < length (linhas_regiao tab).
         regiao_preservada (linhas_regiao tab ! i) (linhas_regiao tab' ! i))) \<and>
   (\<exists>stage0 tab0 tab1 r1.
      carregar_dimensao_regiao stage0 tab0 = (tab1, None) \<and>
      r1 \<in> set (linhas_regiao tab1) \<and>
      continente r1 \<noteq> continente_do_grupo (grupo_regional r1))"
proof (intro conjI)
  show "nk_regiao s \<in> set (map nk_regiao (linhas_regiao tab)) \<longrightarrow>
      upsert_regioes [s] [] tab =
        Inr \<lparr>linhas_regiao = map (atualizar_regiao s) (linhas_regiao tab),
             proximo_sk_regiao = proximo_sk_regiao tab + 1\<rparr>"
    using upsert_um_conflito by blast
  show "nk_regiao r = nk_regiao s \<longrightarrow>
      atualizar_regiao s r =
        r\<lparr>nome_territorio := nome_territorio s, grupo_regional := grupo_regional s\<rparr>"
    by (simp add: atualizar_regiao_def)
  show "regiao_preservada r (atualizar_regiao s r)"
    by (rule atualizar_regiao_preserva)
  show "carregar_dimensao_regiao stage tab = (tab', None) \<longrightarrow>
      length (linhas_regiao tab) \<le> length (linhas_regiao tab') \<and>
      (\<forall>i < length (linhas_regiao tab).
         regiao_preservada (linhas_regiao tab ! i) (linhas_regiao tab' ! i))"
    using carregar_dimensao_regiao_preserva by blast
  show "\<exists>stage0 tab0 tab1 r1.
      carregar_dimensao_regiao stage0 tab0 = (tab1, None) \<and>
      r1 \<in> set (linhas_regiao tab1) \<and>
      continente r1 \<noteq> continente_do_grupo (grupo_regional r1)"
  proof (intro exI conjI)
    let ?r1 = "\<lparr>nk_regiao = 1, nome_territorio = Some ''Northwest'', codigo_pais = Some ''US'',
          nome_pais = Some ''US'', continente = Americas,
          grupo_regional = Some ''Europe'', sk_regiao = 1\<rparr>"
    show "carregar_dimensao_regiao
       [\<lparr>TerritoryID = Some 1, Name = Some ''Northwest'', CountryRegionCode = Some ''GB'',
         Group = Some ''Europe''\<rparr>]
       \<lparr>linhas_regiao =
          [\<lparr>nk_regiao = 1, nome_territorio = Some ''Noroeste'', codigo_pais = Some ''US'',
            nome_pais = Some ''US'', continente = Americas,
            grupo_regional = Some ''North America'', sk_regiao = 1\<rparr>],
        proximo_sk_regiao = 2\<rparr> =
       (\<lparr>linhas_regiao = [?r1], proximo_sk_regiao = 3\<rparr>, None)"
      by (rule exemplo_carga_regiao)
    show "?r1 \<in> set (linhas_regiao \<lparr>linhas_regiao = [?r1], proximo_sk_regiao = 3\<rparr>)"
      by simp
    have "continente_do_grupo (grupo_regional ?r1) = Europa"
      by (simp add: exemplo_continente)
    then show "continente ?r1 \<noteq> continente_do_grupo (grupo_regional ?r1)"
      by simp
  qed
qed

text \<open>
  A territory stored under the group North America, staged again with the group Europe
  and another country code: the load keeps the country code and the continent of the
  first insert and takes the new group.
\<close>

theorem regiao_conflito_so_atualiza_nome_e_grupo_witness:
  "carregar_dimensao_regiao
     [\<lparr>TerritoryID = Some 1, Name = Some ''Northwest'', CountryRegionCode = Some ''GB'',
       Group = Some ''Europe''\<rparr>]
     \<lparr>linhas_regiao =
        [\<lparr>nk_regiao = 1, nome_territorio = Some ''Noroeste'', codigo_pais = Some ''US'',
          nome_pais = Some ''US'', continente = Americas,
          grupo_regional = Some ''North America'', sk_regiao = 1\<rparr>],
      proximo_sk_regiao = 2\<rparr> =
   (\<lparr>linhas_regiao =
        [\<lparr>nk_regiao = 1, nome_territorio = Some ''Northwest'', codigo_pais = Some ''US'',
          nome_pais = Some ''US'', continente = Americas,
          grupo_regional = Some ''Europe'', sk_regiao = 1\<rparr>],
      proximo_sk_regiao = 3\<rparr>, None) \<and>
   regiao_preservada
     \<lparr>nk_regiao = 1, nome_territorio = Some ''Noroeste'', codigo_pais = Some ''US'',
      nome_pais = Some ''US'', continente = Americas,
      grupo_regional = Some ''North America'', sk_regiao = 1\<rparr>
     \<lparr>nk_regiao = 1, nome_territorio = Some ''Northwest'', codigo_pais = Some ''US'',
      nome_pais = Some ''US'', continente = Americas,
      grupo_regional = Some ''Europe'', sk_regiao = 1\<rparr> \<and>
   continente_do_grupo (Some ''Europe'') = Europa"
proof -
  let ?stage = "[\<lparr>TerritoryID = Some 1, Name = Some ''Northwest'',
                  CountryRegionCode = Some ''GB'', Group = Some ''Europe''\<rparr>]"
  let ?r = "\<lparr>nk_regiao = 1, nome_territorio = Some ''Noroeste'', codigo_pais = Some ''US'',
             nome_pais = Some ''US'', continente = Americas,
             grupo_regional = Some ''North America'', sk_regiao = 1\<rparr>"
  let ?r' = "\<lparr>nk_regiao = 1, nome_territorio = Some ''Northwest'', codigo_pais = Some ''US'',
             nome_pais = Some ''US'', continente = Americas,
             grupo_regional = Some ''Europe'', sk_regiao = 1\<rparr>"
  let ?tab = "\<lparr>linhas_regiao = [?r], proximo_sk_regiao = 2\<rparr>"
  let ?tab' = "\<lparr>linhas_regiao = [?r'], proximo_sk_regiao = 3\<rparr>"
  have c: "carregar_dimensao_regiao ?stage ?tab = (?tab', None)"
    by (simp add: carregar_dimensao_regiao_def selecionar_regioes_def selecionar_regiao_def
        List.map_filter_simps atualizar_regiao_def)
  from regiao_conflito_so_atualiza_nome_e_grupo [of _ ?tab _ ?stage ?tab'] c
  have "\<forall>i < length (linhas_regiao ?tab).
          regiao_preservada (linhas_regiao ?tab ! i) (linhas_regiao ?tab' ! i)"
    by blast
  then have "regiao_preservada ?r ?r'" by simp
  with c show ?thesis by (simp add: exemplo_continente)
qed

section \<open>Properties of the fact load\<close>

lemma inserir_fatos_acrescenta:
  "\<exists>ext. inserir_fatos novas tabela = tabela @ ext \<and>
         (\<forall>x \<in> set ext. chave_fato x \<notin> set (map chave_fato tabela))"
proof (induction novas arbitrary: tabela)
  case Nil
  show ?case by simp
next
  case (Cons r novas)
  show ?case
  proof (cases "chave_fato r \<in> set (map chave_fato tabela)")
    case True
    then show ?thesis using Cons.IH [of tabela] by simp
  next
    case False
    from Cons.IH [of "tabela @ [r]"] obtain ext where
      e: "inserir_fatos novas (tabela @ [r]) = (tabela @ [r]) @ ext"
      and n: "\<forall>x \<in> set ext. chave_fato x \<notin> set (map chave_fato (tabela @ [r]))"
      by blast
    have "inserir_fatos (r # novas) tabela = tabela @ (r # ext)"
      using False e by simp
    moreover have "\<forall>x \<in> set (r # ext). chave_fato x \<notin> set (map chave_fato tabela)"
      using False n by auto
    ultimately show ?thesis by blast
  qed
qed

lemma inserir_fatos_prefixo:
  "take (length tabela) (inserir_fatos novas tabela) = tabela"
  using inserir_fatos_acrescenta [of novas tabela] by auto

lemma inserir_fatos_chave_existente:
  assumes "k \<in> set (map chave_fato tabela)"
  shows "filter (\<lambda>x. chave_fato x = k) (inserir_fatos novas tabela) =
         filter (\<lambda>x. chave_fato x = k) tabela"
proof -
  from inserir_fatos_acrescenta [of novas tabela] obtain ext where
    e: "inserir_fatos novas tabela = tabela @ ext"
    and n: "\<forall>x \<in> set ext. chave_fato x \<notin> set (map chave_fato tabela)"
    by blast
  have "filter (\<lambda>x. chave_fato x = k) ext = []"
    using n assms by (auto simp: filter_empty_conv)
  then show ?thesis unfolding e by simp
qed

lemma inserir_fatos_chaves_mantidas:
  "set (map chave_fato tabela) \<subseteq> set (map chave_fato (inserir_fatos novas tabela))"
  using inserir_fatos_acrescenta [of novas tabela] by auto

lemma inserir_fatos_chaves_novas:
  "set (map chave_fato novas) \<subseteq> set (map chave_fato (inserir_fatos novas tabela))"
proof (induction novas arbitrary: tabela)
  case Nil
  show ?case by simp
next
  case (Cons r novas)
  show ?case
  proof (cases "chave_fato r \<in> set (map chave_fato tabela)")
    case True
    then show ?thesis
      using Cons.IH [of tabela] inserir_fatos_chaves_mantidas [of tabela novas] by auto
  next
    case False
    then show ?thesis
      using Cons.IH [of "tabela @ [r]"] inserir_fatos_chaves_mantidas [of "tabela @ [r]" novas]
      by auto
  qed
qed

lemma inserir_fatos_nada_novo:
  "set (map chave_fato novas) \<subseteq> set (map chave_fato tabela) \<Longrightarrow>
     inserir_fatos novas tabela = tabela"
  by (induction novas) auto

lemma inserir_fatos_idempotente:
  "inserir_fatos novas (inserir_fatos novas tabela) = inserir_fatos novas tabela"
  by (rule inserir_fatos_nada_novo) (rule inserir_fatos_chaves_novas)

lemma carregar_fato_vendas_prefixo:
  "take (length tabela) (fst (carregar_fato_vendas dividir e tabela)) = tabela"
  by (simp add: carregar_fato_vendas_def Let_def inserir_fatos_prefixo split: sum.splits)

lemma carregar_fato_vendas_idempotente:
  "carregar_fato_vendas dividir e (fst (carregar_fato_vendas dividir e tabela)) =
     carregar_fato_vendas dividir e tabela"
  by (simp add: carregar_fato_vendas_def Let_def inserir_fatos_idempotente split: sum.splits)

lemma linhas_do_par_sem_chave:
  "\<not> chave_completa sod \<Longrightarrow> linhas_do_par dividir e sod soh = []"
  by (auto simp: chave_completa_def linhas_do_par_def split: option.splits)

lemma linhas_do_detalhe_sem_chave:
  "\<not> chave_completa sod \<Longrightarrow> linhas_do_detalhe dividir e sod = []"
  by (simp add: linhas_do_detalhe_def linhas_do_par_sem_chave)

lemma linhas_do_par_detalhes:
  "linhas_do_par dividir (e\<lparr>stage_pedidos_detalhe := ds\<rparr>) sod = linhas_do_par dividir e sod"
  by (rule ext) (simp add: linhas_do_par_def split: option.splits)

lemma linhas_do_detalhe_detalhes:
  "linhas_do_detalhe dividir (e\<lparr>stage_pedidos_detalhe := ds\<rparr>) = linhas_do_detalhe dividir e"
  by (rule ext) (simp add: linhas_do_detalhe_def linhas_do_par_detalhes)

lemma concat_map_filter_vazio:
  "(\<And>x. \<not> P x \<Longrightarrow> f x = []) \<Longrightarrow> concat (map f (filter P xs)) = concat (map f xs)"
  by (induction xs) auto

lemma selecionar_fatos_filtrado:
  "selecionar_fatos dividir
     (e\<lparr>stage_pedidos_detalhe := filter chave_completa (stage_pedidos_detalhe e)\<rparr>) =
   selecionar_fatos dividir e"
proof -
  have "concat (map (linhas_do_detalhe dividir e) (filter chave_completa (stage_pedidos_detalhe e))) =
        concat (map (linhas_do_detalhe dividir e) (stage_pedidos_detalhe e))"
    by (rule concat_map_filter_vazio) (rule linhas_do_detalhe_sem_chave)
  then show ?thesis
    by (simp add: selecionar_fatos_def linhas_do_detalhe_detalhes)
qed

text \<open>Every row that a load adds to the table is a row computed by the select list.\<close>

lemma todas_ou_erro_Inr:
  "todas_ou_erro xs = Inr ys \<Longrightarrow> xs = map Inr ys"
proof (induction xs arbitrary: ys)
  case Nil
  then show ?case by simp
next
  case (Cons x xs)
  then show ?case
    by (cases x) (auto split: sum.splits)
qed

lemma linha_selecionada_e_calculada:
  assumes "selecionar_fatos dividir e = Inr novas" "r \<in> set novas"
  shows "\<exists>sod soh pedido linha dc dp dr dv do_oferta.
           sod \<in> set (stage_pedidos_detalhe e) \<and> soh \<in> set (stage_pedidos_header e) \<and>
           calcular_linha dividir sod soh pedido linha dc dp dr dv do_oferta = Inr r"
proof -
  have "concat (map (linhas_do_detalhe dividir e) (stage_pedidos_detalhe e)) = map Inr novas"
    using assms(1) unfolding selecionar_fatos_def by (rule todas_ou_erro_Inr)
  then have "Inr r \<in> set (concat (map (linhas_do_detalhe dividir e) (stage_pedidos_detalhe e)))"
    using assms(2) by simp
  then obtain sod where sod: "sod \<in> set (stage_pedidos_detalhe e)"
    and 1: "Inr r \<in> set (linhas_do_detalhe dividir e sod)"
    by auto
  from 1 obtain soh where soh: "soh \<in> set (stage_pedidos_header e)"
    and 2: "Inr r \<in> set (linhas_do_par dividir e sod soh)"
    unfolding linhas_do_detalhe_def by auto
  from 2 have "\<exists>pedido linha dc dp dr dv do_oferta.
      calcular_linha dividir sod soh pedido linha dc dp dr dv do_oferta = Inr r"
    unfolding linhas_do_par_def
    by (auto split: option.splits if_splits) blast
  with sod soh show ?thesis by blast
qed

lemma inserir_fatos_subconjunto:
  "set (inserir_fatos novas tabela) \<subseteq> set tabela \<union> set novas"
proof (induction novas arbitrary: tabela)
  case Nil
  show ?case by simp
next
  case (Cons a novas)
  show ?case
  proof (cases "chave_fato a \<in> set (map chave_fato tabela)")
    case True
    then show ?thesis using Cons.IH [of tabela] by auto
  next
    case False
    then show ?thesis using Cons.IH [of "tabela @ [a]"] by auto
  qed
qed

lemma linha_carregada_e_calculada:
  assumes "r \<in> set (fst (carregar_fato_vendas dividir e fato_vendas))" "r \<notin> set fato_vendas"
  shows "\<exists>sod soh pedido linha dc dp dr dv do_oferta.
           sod \<in> set (stage_pedidos_detalhe e) \<and> soh \<in> set (stage_pedidos_header e) \<and>
           calcular_linha dividir sod soh pedido linha dc dp dr dv do_oferta = Inr r"
proof (cases "selecionar_fatos dividir e")
  case (Inl erro)
  then show ?thesis using assms by (simp add: carregar_fato_vendas_def)
next
  case (Inr novas)
  then have "r \<in> set (inserir_fatos novas fato_vendas)"
    using assms(1) by (simp add: carregar_fato_vendas_def Let_def split: if_splits)
  then have "r \<in> set novas"
    using inserir_fatos_subconjunto [of novas fato_vendas] assms(2) by auto
  with Inr show ?thesis by (rule linha_selecionada_e_calculada)
qed







text \<open>
  Claim C3. Fact rows are written once. Whatever rows the statement proposes, the rows
  already in the table stay where they are and as they are; a proposed row whose
  (order id, order line id) is already in the table is discarded; the rows stored under
  such a key are the same after the load. Running the load again on its own result with
  the same input changes nothing: same table, hence the same row count.
\<close>

theorem fato_escrito_uma_vez:
  "take (length fato_vendas) (inserir_fatos novas fato_vendas) = fato_vendas \<and>
   (chave_fato r \<in> set (map chave_fato fato_vendas) \<longrightarrow>
      inserir_fatos (r # novas) fato_vendas = inserir_fatos novas fato_vendas) \<and>
   (k \<in> set (map chave_fato fato_vendas) \<longrightarrow>
      filter (\<lambda>x. chave_fato x = k) (inserir_fatos novas fato_vendas) =
      filter (\<lambda>x. chave_fato x = k) fato_vendas) \<and>
   take (length fato_vendas) (fst (carregar_fato_vendas dividir e fato_vendas)) = fato_vendas \<and>
   carregar_fato_vendas dividir e (fst (carregar_fato_vendas dividir e fato_vendas)) =
     carregar_fato_vendas dividir e fato_vendas \<and>
   length (fst (carregar_fato_vendas dividir e (fst (carregar_fato_vendas dividir e fato_vendas)))) =
     length (fst (carregar_fato_vendas dividir e fato_vendas))"
proof (intro conjI impI)
  show "take (length fato_vendas) (inserir_fatos novas fato_vendas) = fato_vendas"
    by (rule inserir_fatos_prefixo)
  show "inserir_fatos (r # novas) fato_vendas = inserir_fatos novas fato_vendas"
    if "chave_fato r \<in> set (map chave_fato fato_vendas)"
    using that by simp
  show "filter (\<lambda>x. chave_fato x = k) (inserir_fatos novas fato_vendas) =
      filter (\<lambda>x. chave_fato x = k) fato_vendas"
    if "k \<in> set (map chave_fato fato_vendas)"
    using that by (rule inserir_fatos_chave_existente)
  show "take (length fato_vendas) (fst (carregar_fato_vendas dividir e fato_vendas)) = fato_vendas"
    by (rule carregar_fato_vendas_prefixo)
  show i: "carregar_fato_vendas dividir e (fst (carregar_fato_vendas dividir e fato_vendas)) =
     carregar_fato_vendas dividir e fato_vendas"
    by (rule carregar_fato_vendas_idempotente)
  show "length (fst (carregar_fato_vendas dividir e (fst (carregar_fato_vendas dividir e fato_vendas)))) =
     length (fst (carregar_fato_vendas dividir e fato_vendas))"
    unfolding i ..
qed

text \<open>
  The table holds a row for order 43659, line 1, loaded when the product was still
  unresolved. The load proposes the row recomputed with the product cost: the stored row
  stays, with its old profit and margin. On an empty table the load stores the proposed
  row, and a second run leaves that table unchanged.
\<close>

theorem fato_escrito_uma_vez_witness:
  "chave_fato fato_exemplo \<in> set (map chave_fato [fato_antigo]) \<and>
   inserir_fatos [fato_exemplo] [fato_antigo] = [fato_antigo] \<and>
   filter (\<lambda>x. chave_fato x = (43659, 1)) (inserir_fatos [fato_exemplo] [fato_antigo]) =
     [fato_antigo] \<and>
   carregar_fato_vendas (\<lambda>a b. a / b) entrada_exemplo [fato_antigo] = ([fato_antigo], None) \<and>
   carregar_fato_vendas (\<lambda>a b. a / b) entrada_exemplo [] = ([fato_exemplo], None) \<and>
   carregar_fato_vendas (\<lambda>a b. a / b) entrada_exemplo [fato_exemplo] = ([fato_exemplo], None)"
proof -
  have k: "chave_fato fato_exemplo \<in> set (map chave_fato [fato_antigo])"
    by (simp add: chave_fato_def fato_exemplo_def fato_antigo_def)
  have k': "(43659, 1) \<in> set (map chave_fato [fato_antigo])"
    by (simp add: chave_fato_def fato_antigo_def)
  have a: "carregar_fato_vendas (\<lambda>a b. a / b) entrada_exemplo [fato_antigo] = ([fato_antigo], None)"
    by code_simp
  have b: "carregar_fato_vendas (\<lambda>a b. a / b) entrada_exemplo [] = ([fato_exemplo], None)"
    by code_simp
  note t = fato_escrito_uma_vez [of "[fato_antigo]" "[]" fato_exemplo "(43659, 1)"
      "\<lambda>a b. a / b" entrada_exemplo]
  note t' = fato_escrito_uma_vez [of "[]" "[]" fato_exemplo "(43659, 1)"
      "\<lambda>a b. a / b" entrada_exemplo]
  have 1: "inserir_fatos [fato_exemplo] [fato_antigo] = [fato_antigo]"
    using t k by simp
  have 2: "filter (\<lambda>x. chave_fato x = (43659, 1)) (inserir_fatos [fato_exemplo] [fato_antigo]) =
     [fato_antigo]"
    unfolding 1 using k' by simp
  have 3: "carregar_fato_vendas (\<lambda>a b. a / b) entrada_exemplo [fato_exemplo] = ([fato_exemplo], None)"
    using t' b by simp
  show ?thesis using k 1 2 a b 3 by simp
qed

text \<open>
  Claim C10. A staged order line whose order id or order line id is \<open>NULL\<close> yields no
  row, whatever the headers and dimensions hold, and the whole task behaves as if such
  lines were not staged at all: same table and same outcome, error or not.
\<close>

theorem linha_sem_chave_e_ignorada:
  "linhas_do_detalhe dividir e (sod\<lparr>sod_SalesOrderID := None\<rparr>) = [] \<and>
   linhas_do_detalhe dividir e (sod\<lparr>sod_SalesOrderDetailID := None\<rparr>) = [] \<and>
   selecionar_fatos dividir
     (e\<lparr>stage_pedidos_detalhe := filter chave_completa (stage_pedidos_detalhe e)\<rparr>) =
     selecionar_fatos dividir e \<and>
   carregar_fato_vendas dividir
     (e\<lparr>stage_pedidos_detalhe := filter chave_completa (stage_pedidos_detalhe e)\<rparr>)
     fato_vendas =
     carregar_fato_vendas dividir e fato_vendas"
  by (simp add: linhas_do_detalhe_sem_chave chave_completa_def selecionar_fatos_filtrado
      carregar_fato_vendas_def)

section \<open>Properties of the dependency graph\<close>

lemma dag_arestas_lista:
  "dag_arestas =
     [(inicio_pipeline, task_dim_tempo), (task_dim_tempo, task_staging),
      (task_staging, checkpoint_staging),
      (checkpoint_staging, task_dim_cliente), (checkpoint_staging, task_dim_produto),
      (checkpoint_staging, task_dim_regiao), (checkpoint_staging, task_dim_vendedor),
      (checkpoint_staging, task_dim_oferta),
      (task_dim_cliente, checkpoint_dimensoes), (task_dim_produto, checkpoint_dimensoes),
      (task_dim_regiao, checkpoint_dimensoes), (task_dim_vendedor, checkpoint_dimensoes),
      (task_dim_oferta, checkpoint_dimensoes),
      (checkpoint_dimensoes, task_fato_vendas), (task_fato_vendas, fim_pipeline)]"
  by (simp add: dag_arestas_def arestas_entre_def)

text \<open>
  Claim C4. The claim asks that in every run the region load finishes before the
  salesperson load starts. The graph has no edge between the two loads, in either
  direction: both hang from \<open>checkpoint_staging\<close> only, and the run below respects every
  edge of the graph while it executes the salesperson load before the region load. In
  such a first run the salesperson load finds \<open>dw.dim_regiao\<close> empty and stores the
  salesperson of territory 5 without a region key; with the region load first the same
  salesperson gets the region key 1.
\<close>

theorem vendedor_pode_rodar_antes_de_regiao:
  "execucao_valida dag_arestas
     [inicio_pipeline, task_dim_tempo, task_staging, checkpoint_staging,
      task_dim_vendedor, task_dim_cliente, task_dim_produto, task_dim_regiao,
      task_dim_oferta, checkpoint_dimensoes, task_fato_vendas, fim_pipeline] \<and>
   antes
     [inicio_pipeline, task_dim_tempo, task_staging, checkpoint_staging,
      task_dim_vendedor, task_dim_cliente, task_dim_produto, task_dim_regiao,
      task_dim_oferta, checkpoint_dimensoes, task_fato_vendas, fim_pipeline]
     task_dim_vendedor task_dim_regiao \<and>
   (task_dim_regiao, task_dim_vendedor) \<notin> set dag_arestas \<and>
   (task_dim_vendedor, task_dim_regiao) \<notin> set dag_arestas \<and>
   map dv_sk_regiao
     (linhas_vendedor (fst (carregar_dimensao_vendedor vendedores_exemplo funcionarios_exemplo
        pessoas_exemplo (linhas_regiao regiao_vazia) vendedor_vazia))) = [None] \<and>
   map dv_sk_regiao
     (linhas_vendedor (fst (carregar_dimensao_vendedor vendedores_exemplo funcionarios_exemplo
        pessoas_exemplo
        (linhas_regiao (fst (carregar_dimensao_regiao territorios_exemplo regiao_vazia)))
        vendedor_vazia))) = [Some 1]"
proof -
  have a: "execucao_valida dag_arestas
     [inicio_pipeline, task_dim_tempo, task_staging, checkpoint_staging,
      task_dim_vendedor, task_dim_cliente, task_dim_produto, task_dim_regiao,
      task_dim_oferta, checkpoint_dimensoes, task_fato_vendas, fim_pipeline] \<and>
   antes
     [inicio_pipeline, task_dim_tempo, task_staging, checkpoint_staging,
      task_dim_vendedor, task_dim_cliente, task_dim_produto, task_dim_regiao,
      task_dim_oferta, checkpoint_dimensoes, task_fato_vendas, fim_pipeline]
     task_dim_vendedor task_dim_regiao \<and>
   (task_dim_regiao, task_dim_vendedor) \<notin> set dag_arestas \<and>
   (task_dim_vendedor, task_dim_regiao) \<notin> set dag_arestas"
    unfolding dag_arestas_lista
    by (auto simp add: execucao_valida_def antes_def todas_tarefas_def)
  have b: "carregar_dimensao_vendedor vendedores_exemplo funcionarios_exemplo pessoas_exemplo
       (linhas_regiao regiao_vazia) vendedor_vazia =
     (\<lparr>linhas_vendedor =
         [\<lparr>dv_nk_vendedor = 279, dv_nome_vendedor = ''Tsvi Reiter'',
           dv_codigo_vendedor = ''V00279'', dv_sk_regiao = None,
           dv_data_admissao = Some (2011, 5, 31), dv_meta_anual = 300000,
           dv_comissao_percentual = 1 / 100, dv_sk_vendedor = 1\<rparr>],
        proximo_sk_vendedor = 2\<rparr>, None)"
    by code_simp
  have c: "carregar_dimensao_vendedor vendedores_exemplo funcionarios_exemplo pessoas_exemplo
       (linhas_regiao (fst (carregar_dimensao_regiao territorios_exemplo regiao_vazia)))
       vendedor_vazia =
     (\<lparr>linhas_vendedor =
         [\<lparr>dv_nk_vendedor = 279, dv_nome_vendedor = ''Tsvi Reiter'',
           dv_codigo_vendedor = ''V00279'', dv_sk_regiao = Some 1,
           dv_data_admissao = Some (2011, 5, 31), dv_meta_anual = 300000,
           dv_comissao_percentual = 1 / 100, dv_sk_vendedor = 1\<rparr>],
        proximo_sk_vendedor = 2\<rparr>, None)"
    by code_simp
  show ?thesis using a unfolding b c by simp
qed

end
